theory Spec2Isabelle
  imports Main "HOL-Library.Sublist"
begin

section \<open>Strings and the standard output stream\<close>

text \<open>
  The program is the module body of \<^verbatim>\<open>compare_to_shortform.py\<close>: a straight line of
  \<^verbatim>\<open>print\<close> calls, three assignments of literal tables and two \<^verbatim>\<open>for\<close> loops.

  A Python \<^verbatim>\<open>str\<close> is modelled as a \<^typ>\<open>string\<close>. The literals of the source are ASCII
  but for three symbols, which are written as the UTF-8 bytes they have in the source
  file and on a UTF-8 standard output; \<^const>\<open>length\<close> therefore counts bytes, which is
  the number of characters on every line that holds none of the three symbols.
\<close>

definition check_mark :: string where
  "check_mark = [CHR 0xE2, CHR 0x9C, CHR 0x93]"

definition books_sign :: string where
  "books_sign = [CHR 0xF0, CHR 0x9F, CHR 0x93, CHR 0x9A]"

definition cross_mark :: string where
  "cross_mark = [CHR 0xE2, CHR 0x9D, CHR 0x8C]"

text \<open>
  The standard output stream is the text written to it so far; \<^verbatim>\<open>print(s)\<close> with one
  argument appends \<^verbatim>\<open>s\<close> and a line feed. \<^verbatim>\<open>s * n\<close> on a string is \<^verbatim>\<open>n\<close> copies of it.
\<close>

type_synonym stdout = string

definition print :: "string \<Rightarrow> stdout \<Rightarrow> stdout" where
  "print s out = out @ s @ ''\<newline>''"

definition repeat :: "string \<Rightarrow> nat \<Rightarrow> string" where
  "repeat s n = concat (replicate n s)"


section \<open>The three literal tables\<close>

text \<open>
  A \<^verbatim>\<open>dict\<close> literal keeps its keys in insertion order, so \<^verbatim>\<open>shortform_features\<close> is an
  association list. The name \<^verbatim>\<open>fixes\<close> of the source is a keyword here, hence
  \<open>fixes_list\<close>.
\<close>

definition shortform_features :: "(string \<times> string list) list" where
  "shortform_features =
    [(''STRUCTURE'',
      [check_mark @ '' Cover page with book title, author, and 2-3 paragraph introduction'',
       check_mark @ '' '1-Page Summary' section with condensed overview'',
       check_mark @ '' 8-12 main content sections organized by themes'',
       check_mark @ '' Each section has multiple subsections with bold headers'',
       check_mark @ '' Conclusion or final thoughts section'']),
     (''SHORTFORM NOTES (CRITICAL!)'',
      [check_mark @ '' Gray background boxes with '(Shortform note: ...)' format'',
       check_mark @ '' COMPARATIVE ANALYSIS citing 5-10 OTHER books by name'',
       check_mark @ '' Author credentials and biographical context'',
       check_mark @ '' Scientific/philosophical foundations explained'',
       check_mark @ '' Critical analysis challenging the book's claims'',
       check_mark @ '' Practical implementation strategies from other sources'',
       check_mark @ '' Appears every 2-4 paragraphs throughout the summary'']),
     (''CITATIONS & RESEARCH'',
      [check_mark @ '' Specific book titles in italics (e.g., *Thinking, Fast and Slow*)'',
       check_mark @ '' Author names with credentials (e.g., 'Daniel Kahneman, Nobel laureate')'',
       check_mark @ '' Concrete examples from cited sources'',
       check_mark @ '' Cross-references between different books'',
       check_mark @ '' 8-12 total external sources minimum'']),
     (''VISUAL DESIGN'',
      [check_mark @ '' Yellow/gold horizontal bars separating major sections'',
       check_mark @ '' Light gray background boxes for Shortform notes'',
       check_mark @ '' Professional typography with clear hierarchy'',
       check_mark @ '' Blue hyperlinks for cross-references'',
       check_mark @ '' Logo watermark on pages''])]"

definition missing :: "string list" where
  "missing =
    [''1. NO GRAY BACKGROUND BOXES - Shortform notes must be in visible gray boxes'',
     ''2. NO COMPARATIVE ANALYSIS - Missing citations to other books'',
     ''3. NO AUTHOR CREDENTIALS - Not explaining who the experts are'',
     ''4. TOO GENERIC - Reads like a basic summary, not deep research'',
     ''5. NO SUBSECTIONS - Missing the detailed chapter breakdowns'',
     ''6. INSUFFICIENT RESEARCH DEPTH - Need 8-12 external book citations minimum'',
     ''7. NO CRITICAL ANALYSIS - Missing counterarguments and limitations'',
     ''8. NO PRACTICAL IMPLEMENTATION - Missing actionable steps from other sources'']"

definition fixes_list :: "string list" where
  "fixes_list =
    [''1. UPDATE AI PROMPT: Force generation of 8-12 specific book citations'',
     ''2. UPDATE RENDERER: Add gray background boxes for all Shortform notes'',
     ''3. UPDATE PROMPT: Require author credentials for every citation'',
     ''4. UPDATE PROMPT: Mandate comparative analysis format'',
     ''5. UPDATE PROMPT: Require critical analysis and counterarguments'',
     ''6. UPDATE STRUCTURE: Generate 8-12 main sections with 2-4 subsections each'',
     ''7. UPDATE FREQUENCY: Insert Shortform note every 2-4 paragraphs'',
     ''8. UPDATE EXAMPLES: Provide actual Shortform note examples in the prompt'']"


section \<open>The module body\<close>

text \<open>
  The statements of the module in source order, threading the output stream. The table
  assigned to \<^verbatim>\<open>shortform_features\<close> is a parameter of \<open>module_body\<close>, so that
  the program can be compared with itself under another table; the program as written is
  \<open>compare_to_shortform\<close>. A \<^verbatim>\<open>for\<close> loop over a list is a \<^const>\<open>fold\<close>, and the
  f-string of its body is the concatenation of two spaces and the loop variable.
\<close>

definition module_body :: "(string \<times> string list) list \<Rightarrow> stdout \<Rightarrow> stdout" where
  "module_body table out0 =
    (let out = print (repeat ''='' 80) out0;
         out = print ''SHORTFORM SUMMARY COMPARISON ANALYSIS'' out;
         out = print (repeat ''='' 80) out;
         out = print (''\<newline>'' @ books_sign @ '' ANALYZING REAL SHORTFORM SUMMARIES...'') out;
         features = table;
         out = print (''\<newline>'' @ cross_mark @ '' WHAT'S MISSING FROM CURRENT IMPLEMENTATION:'') out;
         out = print (repeat ''-'' 80) out;
         out = fold (\<lambda>item. print (''  '' @ item)) missing out;
         out = print (''\<newline>'' @ repeat ''='' 80) out;
         out = print ''REQUIRED FIXES:'' out;
         out = print (repeat ''='' 80) out;
         out = fold (\<lambda>fix. print (''  '' @ fix)) fixes_list out;
         out = print (''\<newline>'' @ repeat ''='' 80) out
     in out)"

definition compare_to_shortform :: "stdout \<Rightarrow> stdout" where
  "compare_to_shortform = module_body shortform_features"

text \<open>What one run of the script writes to a fresh stream.\<close>

definition report :: string where
  "report = compare_to_shortform []"



section \<open>Observing the output\<close>

text \<open>
  The lines of a text: a line ends at each line feed, and text after the last line feed
  is one more, unterminated, line. \<open>unlines\<close> is the converse on terminated lines.
\<close>

fun lines_from :: "string \<Rightarrow> string \<Rightarrow> string list" where
  "lines_from cur [] = (if cur = [] then [] else [cur])"
| "lines_from cur (c # cs) =
    (if c = CHR 0x0A then cur # lines_from [] cs else lines_from (cur @ [c]) cs)"

definition text_lines :: "string \<Rightarrow> string list" where
  "text_lines s = lines_from [] s"

definition unlines :: "string list \<Rightarrow> string" where
  "unlines ls = concat (map (\<lambda>l. l @ ''\<newline>'') ls)"

text \<open>
  The number of positions at which \<open>pat\<close> starts in \<open>s\<close>, and whether there is one.
\<close>

fun count_occurrences :: "'a list \<Rightarrow> 'a list \<Rightarrow> nat" where
  "count_occurrences pat [] = (if pat = [] then 1 else 0)"
| "count_occurrences pat (x # xs) =
    (if prefix pat (x # xs) then 1 else 0) + count_occurrences pat xs"

definition occurs_in :: "'a list \<Rightarrow> 'a list \<Rightarrow> bool" where
  "occurs_in pat s = (0 < count_occurrences pat s)"

text \<open>A separator line of the character \<open>c\<close>: a non-empty line of nothing but \<open>c\<close>.\<close>

definition is_separator :: "char \<Rightarrow> string \<Rightarrow> bool" where
  "is_separator c l = (l \<noteq> [] \<and> list_all (\<lambda>x. x = c) l)"

text \<open>
  A line mentions a category of the table when one of the category names occurs in it,
  at any position and with anything around it.
\<close>

definition mentions_category :: "(string \<times> string list) list \<Rightarrow> string \<Rightarrow> bool" where
  "mentions_category table l = list_ex (\<lambda>name. occurs_in name l) (map fst table)"

text \<open>The thirty lines of the report, from the statements of the module in order.\<close>

definition report_lines :: "string list" where
  "report_lines =
    [repeat ''='' 80, ''SHORTFORM SUMMARY COMPARISON ANALYSIS'', repeat ''='' 80,
     [], books_sign @ '' ANALYZING REAL SHORTFORM SUMMARIES...'',
     [], cross_mark @ '' WHAT'S MISSING FROM CURRENT IMPLEMENTATION:'', repeat ''-'' 80]
    @ map (\<lambda>item. ''  '' @ item) missing
    @ [[], repeat ''='' 80, ''REQUIRED FIXES:'', repeat ''='' 80]
    @ map (\<lambda>fix. ''  '' @ fix) fixes_list
    @ [[], repeat ''='' 80]"


section \<open>The output as a list of lines\<close>

lemma lines_from_line:
  "CHR 0x0A \<notin> set l \<Longrightarrow> lines_from cur (l @ CHR 0x0A # rest) = (cur @ l) # lines_from [] rest"
  by (induction l arbitrary: cur) auto

lemma unlines_Cons: "unlines (l # ls) = l @ CHR 0x0A # unlines ls"
  by (simp add: unlines_def)

lemma text_lines_unlines:
  "list_all (\<lambda>l. CHR 0x0A \<notin> set l) ls \<Longrightarrow> text_lines (unlines ls) = ls"
proof (induction ls)
  case Nil
  show ?case by (simp add: text_lines_def unlines_def)
next
  case (Cons l ls)
  then have "lines_from [] (l @ CHR 0x0A # unlines ls) = l # lines_from [] (unlines ls)"
    using lines_from_line [of l "[]" "unlines ls"] by simp
  with Cons show ?case by (simp add: text_lines_def unlines_Cons)
qed

lemma fold_print:
  "fold (\<lambda>item. print (f item)) items out = out @ unlines (map f items)"
  by (induction items arbitrary: out) (simp_all add: print_def unlines_def)

lemma module_body_unlines: "module_body table out0 = out0 @ unlines report_lines"
  by (simp add: module_body_def report_lines_def fold_print print_def unlines_def)

lemma repeat_single: "repeat [c] n = replicate n c"
  by (induction n) (simp_all add: repeat_def)

lemma no_newline_lines: "list_all (\<lambda>l. CHR 0x0A \<notin> set l) report_lines"
  by (simp add: report_lines_def repeat_single missing_def fixes_list_def
      books_sign_def cross_mark_def)

lemma report_unlines: "report = unlines report_lines"
  by (simp add: report_def compare_to_shortform_def module_body_unlines)

lemma text_lines_report: "text_lines report = report_lines"
  using text_lines_unlines [OF no_newline_lines] by (simp add: report_unlines)

lemma length_report_lines: "length report_lines = 30"
  by (simp add: report_lines_def missing_def fixes_list_def)

lemma unlines_append: "unlines (xs @ ys) = unlines xs @ unlines ys"
  by (simp add: unlines_def)


section \<open>Evaluating predicates on the lines\<close>

text \<open>
  A separator is kept as \<^const>\<open>replicate\<close>; these rules compare it with a literal line
  at the first character, and decide \<open>is_separator\<close> without unfolding it eighty times.
\<close>

lemma replicate_eq_Cons:
  "replicate n c = x # xs \<longleftrightarrow> 0 < n \<and> x = c \<and> xs = replicate (n - 1) c"
  by (cases n) auto

lemma Cons_eq_replicate:
  "x # xs = replicate n c \<longleftrightarrow> 0 < n \<and> x = c \<and> xs = replicate (n - 1) c"
  by (cases n) auto

lemma is_separator_replicate: "is_separator c (replicate n d) \<longleftrightarrow> 0 < n \<and> d = c"
  by (auto simp: is_separator_def list_all_iff)

lemma is_separator_Cons:
  "is_separator c (x # xs) \<longleftrightarrow> x = c \<and> list_all (\<lambda>y. y = c) xs"
  by (auto simp: is_separator_def)

lemma is_separator_Nil: "\<not> is_separator c []"
  by (simp add: is_separator_def)

lemmas separator_simps = is_separator_replicate is_separator_Cons is_separator_Nil

lemmas tables = missing_def fixes_list_def books_sign_def cross_mark_def

lemmas line_simps = report_lines_def repeat_single tables replicate_eq_Cons Cons_eq_replicate

lemma missing_block: "take 8 (drop 8 report_lines) = map ((@) ''  '') missing"
  by (simp add: report_lines_def missing_def)

lemma fixes_block: "take 8 (drop 20 report_lines) = map ((@) ''  '') fixes_list"
  by (simp add: report_lines_def missing_def fixes_list_def)

lemma separators_checked:
  "list_all (\<lambda>l. is_separator CHR ''='' l \<or> is_separator CHR ''-'' l \<longrightarrow> length l = 80)
     report_lines"
  by (simp add: report_lines_def repeat_single tables separator_simps)


section \<open>The missing items and the fixes\<close>

text \<open>
  C2. The list \<^verbatim>\<open>missing\<close> has 8 entries, which begin with the ordinals \<^verbatim>\<open>1.\<close> to \<^verbatim>\<open>8.\<close> in
  list order. Each entry is printed on a line of its own after two spaces: lines 9 to 16
  of the output are the entries in list order, each behind two spaces, and these 8 are
  the only lines of the output that are an entry behind two spaces.
\<close>

theorem missing_items_printed:
  "length missing = 8
   \<and> map (take 2) missing = [''1.'', ''2.'', ''3.'', ''4.'', ''5.'', ''6.'', ''7.'', ''8.'']
   \<and> take 8 (drop 8 (text_lines report)) = map ((@) ''  '') missing
   \<and> filter (\<lambda>l. l \<in> set (map ((@) ''  '') missing)) (text_lines report)
       = map ((@) ''  '') missing"
proof -
  have "filter (\<lambda>l. l \<in> set (map ((@) ''  '') missing)) report_lines = map ((@) ''  '') missing"
    by (simp add: line_simps)
  moreover have "map (take 2) missing = [''1.'', ''2.'', ''3.'', ''4.'', ''5.'', ''6.'', ''7.'', ''8.'']"
    by (simp add: missing_def)
  moreover have "length missing = 8"
    by (simp add: missing_def)
  ultimately show ?thesis
    unfolding text_lines_report using missing_block by simp
qed

text \<open>
  C3. The list \<^verbatim>\<open>fixes\<close> has 8 entries, which begin with the ordinals \<^verbatim>\<open>1.\<close> to \<^verbatim>\<open>8.\<close> in
  list order. Each entry is printed on a line of its own after two spaces: lines 21 to 28
  of the output are the entries in list order, each behind two spaces, and these 8 are
  the only lines of the output that are an entry behind two spaces.
\<close>

theorem fixes_printed:
  "length fixes_list = 8
   \<and> map (take 2) fixes_list = [''1.'', ''2.'', ''3.'', ''4.'', ''5.'', ''6.'', ''7.'', ''8.'']
   \<and> take 8 (drop 20 (text_lines report)) = map ((@) ''  '') fixes_list
   \<and> filter (\<lambda>l. l \<in> set (map ((@) ''  '') fixes_list)) (text_lines report)
       = map ((@) ''  '') fixes_list"
proof -
  have "filter (\<lambda>l. l \<in> set (map ((@) ''  '') fixes_list)) report_lines = map ((@) ''  '') fixes_list"
    by (simp add: line_simps)
  moreover have "map (take 2) fixes_list = [''1.'', ''2.'', ''3.'', ''4.'', ''5.'', ''6.'', ''7.'', ''8.'']"
    by (simp add: fixes_list_def)
  moreover have "length fixes_list = 8"
    by (simp add: fixes_list_def)
  ultimately show ?thesis
    unfolding text_lines_report using fixes_block by simp
qed


section \<open>Separators and the shape of the output\<close>

text \<open>
  C4. Every line of the output that is a separator of \<^verbatim>\<open>=\<close> characters or a separator of
  \<^verbatim>\<open>-\<close> characters is exactly 80 characters long.
\<close>

theorem separator_lines_have_80_chars:
  assumes "l \<in> set (text_lines report)"
    and "is_separator CHR ''='' l \<or> is_separator CHR ''-'' l"
  shows "length l = 80"
  using assms separators_checked unfolding text_lines_report list_all_iff by blast

theorem separator_lines_have_80_chars_witness:
  "repeat ''='' 80 \<in> set (text_lines report) \<and> is_separator CHR ''='' (repeat ''='' 80)
   \<and> length (repeat ''='' 80) = 80
   \<and> repeat ''-'' 80 \<in> set (text_lines report) \<and> is_separator CHR ''-'' (repeat ''-'' 80)
   \<and> length (repeat ''-'' 80) = 80"
proof -
  have in_eq: "repeat ''='' 80 \<in> set (text_lines report)"
    and in_dash: "repeat ''-'' 80 \<in> set (text_lines report)"
    by (simp_all add: text_lines_report report_lines_def)
  have sep_eq: "is_separator CHR ''='' (repeat ''='' 80)"
    and sep_dash: "is_separator CHR ''-'' (repeat ''-'' 80)"
    by (simp_all add: repeat_single is_separator_replicate)
  from sep_eq
  have "is_separator CHR ''='' (repeat ''='' 80) \<or> is_separator CHR ''-'' (repeat ''='' 80)" ..
  from separator_lines_have_80_chars [OF in_eq this]
  have len_eq: "length (repeat ''='' 80) = 80" .
  from sep_dash
  have "is_separator CHR ''='' (repeat ''-'' 80) \<or> is_separator CHR ''-'' (repeat ''-'' 80)" ..
  from separator_lines_have_80_chars [OF in_dash this]
  have len_dash: "length (repeat ''-'' 80) = 80" .
  from in_eq sep_eq len_eq in_dash sep_dash len_dash show ?thesis by blast
qed

text \<open>
  C5. The first three lines of the output are a line of 80 \<^verbatim>\<open>=\<close> characters, the title
  \<^verbatim>\<open>SHORTFORM SUMMARY COMPARISON ANALYSIS\<close> and another line of 80 \<^verbatim>\<open>=\<close> characters: the
  captured text begins with these three lines, each ended by a line feed.
\<close>

theorem first_three_lines:
  "take 3 (text_lines report)
     = [replicate 80 CHR ''='', ''SHORTFORM SUMMARY COMPARISON ANALYSIS'', replicate 80 CHR ''='']
   \<and> prefix (replicate 80 CHR ''='' @ ''\<newline>'' @ ''SHORTFORM SUMMARY COMPARISON ANALYSIS'' @ ''\<newline>''
         @ replicate 80 CHR ''='' @ ''\<newline>'') report"
proof -
  have first: "take 3 report_lines
     = [replicate 80 CHR ''='', ''SHORTFORM SUMMARY COMPARISON ANALYSIS'', replicate 80 CHR ''='']"
    by (simp add: report_lines_def repeat_single)
  have "report = unlines (take 3 report_lines) @ unlines (drop 3 report_lines)"
    by (simp add: report_unlines unlines_append [symmetric])
  then have "prefix (unlines (take 3 report_lines)) report"
    by (rule prefixI)
  then have "prefix (replicate 80 CHR ''='' @ ''\<newline>'' @ ''SHORTFORM SUMMARY COMPARISON ANALYSIS''
      @ ''\<newline>'' @ replicate 80 CHR ''='' @ ''\<newline>'') report"
    unfolding first by (simp add: unlines_def)
  with first show ?thesis
    by (simp add: text_lines_report)
qed

text \<open>
  C10. The output is 30 lines, each ended by a line feed. Exactly 4 of them are empty,
  exactly 5 are separators of \<^verbatim>\<open>=\<close> characters, each 80 long, and exactly 1 is a separator
  of \<^verbatim>\<open>-\<close> characters, 80 long.
\<close>

theorem report_line_counts:
  "length (text_lines report) = 30
   \<and> report = unlines (text_lines report)
   \<and> length (filter (\<lambda>l. l = []) (text_lines report)) = 4
   \<and> map length (filter (is_separator CHR ''='') (text_lines report)) = [80, 80, 80, 80, 80]
   \<and> map length (filter (is_separator CHR ''-'') (text_lines report)) = [80]"
proof -
  have "length (filter (\<lambda>l. l = []) report_lines) = 4"
    by (simp add: report_lines_def repeat_single tables)
  moreover have "map length (filter (is_separator CHR ''='') report_lines) = [80, 80, 80, 80, 80]"
    by (simp add: report_lines_def repeat_single tables separator_simps)
  moreover have "map length (filter (is_separator CHR ''-'') report_lines) = [80]"
    by (simp add: report_lines_def repeat_single tables separator_simps)
  ultimately show ?thesis
    unfolding text_lines_report by (simp add: length_report_lines report_unlines)
qed


section \<open>Occurrences of a string in the output\<close>

text \<open>
  A string without a line feed cannot lie across the end of a line, so its occurrences in
  the output are its occurrences in the lines.
\<close>

lemma prefix_before_char:
  "c \<notin> set pat \<Longrightarrow> prefix pat (l @ c # rest) = prefix pat l"
  by (auto simp: prefix_append prefix_Cons)

lemma count_occurrences_line:
  assumes "pat \<noteq> []" and "c \<notin> set pat"
  shows "count_occurrences pat (l @ c # rest) = count_occurrences pat l + count_occurrences pat rest"
proof (induction l)
  case Nil
  from assms have "\<not> prefix pat (c # rest)" by (cases pat) auto
  with assms show ?case by simp
next
  case (Cons x l)
  have "prefix pat ((x # l) @ c # rest) = prefix pat (x # l)"
    using assms(2) by (rule prefix_before_char)
  with Cons show ?case by simp
qed

lemma count_occurrences_unlines:
  assumes "pat \<noteq> []" and "CHR 0x0A \<notin> set pat"
  shows "count_occurrences pat (unlines ls) = sum_list (map (count_occurrences pat) ls)"
proof (induction ls)
  case Nil
  from assms show ?case by (simp add: unlines_def)
next
  case (Cons l ls)
  then show ?case
    using count_occurrences_line [OF assms, of l "unlines ls"] by (simp add: unlines_Cons)
qed

lemma occurs_in_set: "occurs_in pat s \<Longrightarrow> set pat \<subseteq> set s"
proof (induction s)
  case Nil
  then show ?case by (simp add: occurs_in_def split: if_splits)
next
  case (Cons x xs)
  show ?case
  proof (cases "prefix pat (x # xs)")
    case True
    then show ?thesis by (rule set_mono_prefix)
  next
    case False
    with Cons.prems have "occurs_in pat xs" by (simp add: occurs_in_def)
    with Cons.IH show ?thesis by auto
  qed
qed

lemma count_occurrences_replicate:
  "\<not> set pat \<subseteq> {c} \<Longrightarrow> count_occurrences pat (replicate n c) = 0"
proof (rule ccontr)
  assume not_sub: "\<not> set pat \<subseteq> {c}" and "count_occurrences pat (replicate n c) \<noteq> 0"
  then have "occurs_in pat (replicate n c)" by (simp add: occurs_in_def)
  then have "set pat \<subseteq> set (replicate n c)" by (rule occurs_in_set)
  also have "\<dots> \<subseteq> {c}" by auto
  finally show False using not_sub by simp
qed

lemma report_count:
  "pat \<noteq> [] \<Longrightarrow> CHR 0x0A \<notin> set pat \<Longrightarrow>
    count_occurrences pat report = sum_list (map (count_occurrences pat) report_lines)"
  by (simp add: report_unlines count_occurrences_unlines)

lemmas count_simps = report_lines_def repeat_single tables count_occurrences_replicate
  replicate_append_same [symmetric] eval_nat_numeral

lemma required_fixes_per_line:
  "map (count_occurrences ''REQUIRED FIXES:'') report_lines = replicate 18 0 @ [1] @ replicate 11 0"
  by (simp add: count_simps)

lemma structure_per_line:
  "map (count_occurrences ''STRUCTURE'') report_lines = replicate 25 0 @ [1] @ replicate 4 0"
  by (simp add: count_simps)

lemma notes_per_line:
  "map (count_occurrences ''SHORTFORM NOTES (CRITICAL!)'') report_lines = replicate 30 0"
  by (simp add: count_simps)

lemma citations_per_line:
  "map (count_occurrences ''CITATIONS & RESEARCH'') report_lines = replicate 30 0"
  by (simp add: count_simps)

lemma visual_per_line:
  "map (count_occurrences ''VISUAL DESIGN'') report_lines = replicate 30 0"
  by (simp add: count_simps)

lemma sum_list_replicate_0: "sum_list (replicate n (0::nat)) = 0"
  by (induction n) simp_all

text \<open>
  C6. The string \<^verbatim>\<open>REQUIRED FIXES:\<close> occurs exactly once in the whole output: once in
  line 19 and in no other line. Line 19 is that string, and the lines right before and
  right after it are separators of 80 \<^verbatim>\<open>=\<close> characters.
\<close>

theorem required_fixes_once:
  "count_occurrences ''REQUIRED FIXES:'' report = 1
   \<and> map (count_occurrences ''REQUIRED FIXES:'') (text_lines report)
       = replicate 18 0 @ [1] @ replicate 11 0
   \<and> take 3 (drop 17 (text_lines report))
       = [replicate 80 CHR ''='', ''REQUIRED FIXES:'', replicate 80 CHR ''='']"
proof -
  have "count_occurrences ''REQUIRED FIXES:'' report = 1"
    by (simp add: report_count required_fixes_per_line sum_list_replicate_0)
  moreover have "take 3 (drop 17 report_lines)
       = [replicate 80 CHR ''='', ''REQUIRED FIXES:'', replicate 80 CHR ''='']"
    by (simp add: report_lines_def repeat_single missing_def)
  ultimately show ?thesis
    unfolding text_lines_report using required_fixes_per_line by simp
qed


section \<open>The feature catalog\<close>

text \<open>
  Every feature string of the table holds the byte \<^verbatim>\<open>0x9C\<close> of the check mark, and the
  output does not.
\<close>

lemma not_in_unlines:
  "c \<noteq> CHR 0x0A \<Longrightarrow> list_all (\<lambda>l. c \<notin> set l) ls \<Longrightarrow> c \<notin> set (unlines ls)"
  by (induction ls) (auto simp: unlines_def)

lemma check_mark_byte_not_printed: "CHR 0x9C \<notin> set report"
proof -
  have "list_all (\<lambda>l. CHR 0x9C \<notin> set l) report_lines"
    by (simp add: report_lines_def repeat_single tables)
  then show ?thesis
    unfolding report_unlines by (intro not_in_unlines) simp_all
qed

lemma features_hold_check_mark:
  "list_all (\<lambda>f. CHR 0x9C \<in> set f) (concat (map snd shortform_features))"
  by (simp add: shortform_features_def check_mark_def)

lemma no_feature_occurs:
  assumes "f \<in> set (concat (map snd shortform_features))"
  shows "\<not> occurs_in f s \<or> CHR 0x9C \<in> set s"
proof -
  from assms features_hold_check_mark have "CHR 0x9C \<in> set f"
    unfolding list_all_iff by blast
  then show ?thesis using occurs_in_set [of f s] by auto
qed

lemma names_of_table:
  "map fst shortform_features
    = [''STRUCTURE'', ''SHORTFORM NOTES (CRITICAL!)'', ''CITATIONS & RESEARCH'', ''VISUAL DESIGN'']"
  by (simp add: shortform_features_def)

lemma category_mentions:
  "filter (mentions_category shortform_features) report_lines = [''  '' @ fixes_list ! 5]"
  unfolding mentions_category_def names_of_table
  by (simp add: occurs_in_def report_lines_def repeat_single tables count_occurrences_replicate)

text \<open>
  C1 does not hold of the module. The specification has it print, for each of the four
  categories of \<^verbatim>\<open>shortform_features\<close>, the category name as a header and then each
  feature string on a line of its own. The module assigns the table and prints none of
  it, in whatever layout: a run writes exactly what it writes for an empty table, its
  lines are the thirty lines of the other statements, no feature string occurs anywhere
  in the output, and the only line in which a category name occurs is the line of the
  sixth entry of \<^verbatim>\<open>fixes\<close>. So there is no category header where the claim has four.
\<close>

theorem catalog_never_printed:
  "length shortform_features = 4
   \<and> compare_to_shortform [] = module_body [] []
   \<and> text_lines report = report_lines
   \<and> filter (\<lambda>s. occurs_in s report) (concat (map snd shortform_features)) = []
   \<and> filter (mentions_category shortform_features) (text_lines report) = [''  '' @ fixes_list ! 5]"
proof -
  have "length shortform_features = 4"
    by (simp add: shortform_features_def)
  moreover have "compare_to_shortform [] = module_body [] []"
    by (simp add: compare_to_shortform_def module_body_unlines)
  moreover have "filter (\<lambda>s. occurs_in s report) (concat (map snd shortform_features)) = []"
    using no_feature_occurs [of _ report] check_mark_byte_not_printed
    by (auto simp: filter_empty_conv)
  ultimately show ?thesis
    using category_mentions by (simp add: text_lines_report)
qed

lemma structure_count: "count_occurrences ''STRUCTURE'' report = 1"
  by (simp add: report_count structure_per_line sum_list_replicate_0)

text \<open>
  C9 as stated fails in one part: a category name does occur in the output. The key
  \<^verbatim>\<open>STRUCTURE\<close> is a substring of the output.
\<close>

theorem structure_occurs_counterexample:
  "''STRUCTURE'' \<in> set (map fst shortform_features) \<and> occurs_in ''STRUCTURE'' report"
  by (simp add: names_of_table occurs_in_def structure_count)

text \<open>
  C9, amended. The table is assigned and never read: the module writes the same output
  for any two tables. No feature string of \<^verbatim>\<open>shortform_features\<close> occurs anywhere in the
  output. Of its category names only \<^verbatim>\<open>STRUCTURE\<close> occurs, exactly once, and that is in
  line 26, the line printed for the sixth entry of \<^verbatim>\<open>fixes\<close>.
\<close>

theorem table_never_read:
  "module_body table1 out = module_body table2 out
   \<and> filter (\<lambda>s. occurs_in s report) (concat (map snd shortform_features)) = []
   \<and> filter (\<lambda>s. occurs_in s report) (map fst shortform_features) = [''STRUCTURE'']
   \<and> count_occurrences ''STRUCTURE'' report = 1
   \<and> map (count_occurrences ''STRUCTURE'') (text_lines report)
       = replicate 25 0 @ [1] @ replicate 4 0
   \<and> text_lines report ! 25 = ''  '' @ fixes_list ! 5"
proof -
  have "module_body table1 out = module_body table2 out"
    by (simp add: module_body_unlines)
  moreover have "filter (\<lambda>s. occurs_in s report) (concat (map snd shortform_features)) = []"
    using no_feature_occurs [of _ report] check_mark_byte_not_printed
    by (auto simp: filter_empty_conv)
  moreover have "filter (\<lambda>s. occurs_in s report) (map fst shortform_features) = [''STRUCTURE'']"
    unfolding names_of_table
    by (simp add: occurs_in_def report_count structure_per_line notes_per_line
        citations_per_line visual_per_line sum_list_replicate_0)
  moreover have "report_lines ! 25 = ''  '' @ fixes_list ! 5"
    by (simp add: report_lines_def tables)
  ultimately show ?thesis
    unfolding text_lines_report using structure_per_line structure_count by simp
qed

end
